theory Spec2Isabelle
  imports Complex_Main "HOL-Library.AList"
begin

section \<open>Data model\<close>

text \<open>
  The three tables of \<^verbatim>\<open>app/models.py\<close> and the request and response shapes of
  \<^verbatim>\<open>app/schemas.py\<close>. Field names carry a prefix because several classes share
  the names \<^verbatim>\<open>id\<close>, \<^verbatim>\<open>name\<close> and \<^verbatim>\<open>user_id\<close>. A price is a float that the code only
  carries from the request into the row; no arithmetic is done on it.
\<close>

record User =
  u_id :: int
  u_name :: string
  u_password :: string

record Product =
  p_id :: int
  p_name :: string
  p_price :: real
  p_user_id :: int

record Sale =
  s_id :: int
  s_product_id :: int
  s_user_id :: int

record ProductCreate =
  pc_name :: string
  pc_price :: real
  pc_user_id :: int

record SalesCreate =
  sc_product_id :: int
  sc_user_id :: int

text \<open>The dictionary that \<^verbatim>\<open>crud.create_sale\<close> returns (schema \<^verbatim>\<open>Sales\<close>).\<close>

record Sales =
  sales_id :: int
  sales_product_id :: int
  sales_product_name :: string
  sales_user_id :: int
  sales_user_name :: string

record Token =
  access_token :: string
  token_type :: string

record OAuth2PasswordRequestForm =
  form_username :: string
  form_password :: string

section \<open>Exceptions, claims, time\<close>

text \<open>
  Every exception the modelled code can raise is a value; a function that may raise returns
  \<open>exn + 'a\<close> with \<open>Inl\<close> for the exception. \<^verbatim>\<open>HTTPException\<close> carries its status code,
  its detail and its headers.
\<close>

datatype exn =
    HTTPException int string "(string \<times> string) list"
  | ValueError string
  | OverflowError string
  | TypeError string
  | IntegrityError string
  | UnknownHashError string

text \<open>
  The failures of token decoding. In the source they are all caught by the one clause
  \<^verbatim>\<open>except JWTError\<close>; the kinds are those the specification names for the codec. (The
  specification's fourth kind, a missing subject, is not raised by the decoder: the source
  tests for it in \<^verbatim>\<open>get_current_user\<close>.)
\<close>

datatype JWTError =
    Malformed
  | InvalidSignature
  | Expired

text \<open>
  A claims dictionary is an association list in insertion order; \<^verbatim>\<open>dict.get\<close> is
  \<^const>\<open>map_of\<close> and \<^verbatim>\<open>dict.update\<close> with one key is \<^const>\<open>AList.update\<close>. A value is a
  string, an integer, or (before encoding only) a \<^verbatim>\<open>datetime\<close>.
\<close>

datatype claim = Str string | Num int | Datetime int

type_synonym claims = "(string \<times> claim) list"

text \<open>
  A \<^verbatim>\<open>datetime\<close> is its number of microseconds since the epoch, a \<^verbatim>\<open>timedelta\<close> a number
  of microseconds. Python's \<^verbatim>\<open>datetime\<close> covers the years 1 to 9999, and adding a
  \<^verbatim>\<open>timedelta\<close> that leaves this range raises \<^verbatim>\<open>OverflowError\<close>.
\<close>

definition datetime_min :: int where
  "datetime_min = - 62135596800000000"

definition datetime_max :: int where
  "datetime_max = 253402300799999999"

definition datetime_add :: "int \<Rightarrow> int \<Rightarrow> exn + int" where
  "datetime_add t delta =
     (if datetime_min \<le> t + delta \<and> t + delta \<le> datetime_max then Inr (t + delta)
      else Inl (OverflowError ''date value out of range''))"

definition timedelta_minutes :: "int \<Rightarrow> int" where
  "timedelta_minutes m = m * 60000000"

section \<open>The database session\<close>

text \<open>
  The state behind a SQLAlchemy \<^verbatim>\<open>Session\<close>: the rows of the three tables in storage
  order, the last value handed out by the id sequence of the two tables the modelled code
  inserts into, and the lookups (\<^verbatim>\<open>db.query(...).first()\<close>) issued so far, in order.
\<close>

datatype lookup =
    UserByName claim
  | UserById int
  | ProductById int

record Session =
  users :: "User list"
  products :: "Product list"
  sales :: "Sale list"
  products_seq :: int
  sales_seq :: int
  lookups :: "lookup list"

text \<open>
  \<^verbatim>\<open>db.query(models.User).filter(models.User.name == username).first()\<close>: the first row
  whose name equals the given value, or \<^verbatim>\<open>None\<close>. The value comes from a claims dictionary
  in \<^verbatim>\<open>get_current_user\<close>, so it is a \<^typ>\<open>claim\<close>; a value that is not a string equals no
  name.
\<close>

definition query_user_by_name :: "claim \<Rightarrow> Session \<Rightarrow> User option \<times> Session" where
  "query_user_by_name username db =
     (find (\<lambda>u. Str (u_name u) = username) (users db),
      db\<lparr>lookups := lookups db @ [UserByName username]\<rparr>)"

definition query_user_by_id :: "int \<Rightarrow> Session \<Rightarrow> User option \<times> Session" where
  "query_user_by_id i db =
     (find (\<lambda>u. u_id u = i) (users db), db\<lparr>lookups := lookups db @ [UserById i]\<rparr>)"

definition query_product_by_id :: "int \<Rightarrow> Session \<Rightarrow> Product option \<times> Session" where
  "query_product_by_id i db =
     (find (\<lambda>p. p_id p = i) (products db), db\<lparr>lookups := lookups db @ [ProductById i]\<rparr>)"

section \<open>The libraries, as the code sees them\<close>

text \<open>
  \<^verbatim>\<open>app/auth.py\<close> calls two third-party libraries. The functions below take them as
  arguments: \<open>pwd_context\<close> is the \<^verbatim>\<open>verify\<close> method of the password context (it returns a
  boolean or raises), and a \<open>jose\<close> value holds \<^verbatim>\<open>jwt.encode\<close> and \<^verbatim>\<open>jwt.decode\<close>.
  Decoding returns the claims or raises a \<^verbatim>\<open>JWTError\<close>.
\<close>

type_synonym CryptContext = "string \<Rightarrow> string \<Rightarrow> exn + bool"

record jose =
  jwt_encode :: "claims \<Rightarrow> string \<Rightarrow> string \<Rightarrow> exn + string"
  jwt_decode :: "string \<Rightarrow> string \<Rightarrow> string list \<Rightarrow> JWTError + claims"

section \<open>app/auth.py\<close>

definition SECRET_KEY :: string where
  "SECRET_KEY = ''a_secure_secret_key''"

definition ALGORITHM :: string where
  "ALGORITHM = ''HS256''"

definition ACCESS_TOKEN_EXPIRE_MINUTES :: int where
  "ACCESS_TOKEN_EXPIRE_MINUTES = 30"

definition verify_password :: "CryptContext \<Rightarrow> string \<Rightarrow> string \<Rightarrow> exn + bool" where
  "verify_password pwd_context plain_password hashed_password =
     pwd_context plain_password hashed_password"

text \<open>
  Lines 77 to 82 of \<^verbatim>\<open>create_access_token\<close>: the dictionary \<^verbatim>\<open>to_encode\<close> that is handed
  to \<^verbatim>\<open>jwt.encode\<close>. The test \<^verbatim>\<open>if expires_delta:\<close> is Python truthiness: \<^verbatim>\<open>None\<close> is false
  and a \<^verbatim>\<open>timedelta\<close> is false exactly when it is zero. \<open>now\<close> is what \<^verbatim>\<open>datetime.utcnow()\<close>
  returns.
\<close>

definition to_encode :: "claims \<Rightarrow> int option \<Rightarrow> int \<Rightarrow> exn + claims" where
  "to_encode data expires_delta now =
     (case (if (case expires_delta of None \<Rightarrow> False | Some d \<Rightarrow> d \<noteq> 0)
            then datetime_add now (the expires_delta)
            else datetime_add now (timedelta_minutes ACCESS_TOKEN_EXPIRE_MINUTES)) of
        Inl e \<Rightarrow> Inl e
      | Inr expire \<Rightarrow> Inr (AList.update ''exp'' (Datetime expire) data))"

definition create_access_token :: "jose \<Rightarrow> claims \<Rightarrow> int option \<Rightarrow> int \<Rightarrow> exn + string" where
  "create_access_token jwt data expires_delta now =
     (case to_encode data expires_delta now of
        Inl e \<Rightarrow> Inl e
      | Inr c \<Rightarrow> jwt_encode jwt c SECRET_KEY ALGORITHM)"

text \<open>\<^verbatim>\<open>authenticate_user\<close> returns the user or \<^verbatim>\<open>False\<close>; \<^verbatim>\<open>False\<close> is \<open>None\<close> here.\<close>

definition authenticate_user ::
  "CryptContext \<Rightarrow> Session \<Rightarrow> string \<Rightarrow> string \<Rightarrow> (exn + User option) \<times> Session" where
  "authenticate_user pwd_context db username password =
     (case query_user_by_name (Str username) db of
        (None, db1) \<Rightarrow> (Inr None, db1)
      | (Some user, db1) \<Rightarrow>
          (case verify_password pwd_context password (u_password user) of
             Inl e \<Rightarrow> (Inl e, db1)
           | Inr ok \<Rightarrow> if \<not> ok then (Inr None, db1) else (Inr (Some user), db1)))"

definition credentials_exception :: exn where
  "credentials_exception =
     HTTPException 401 ''Could not validate credentials'' [(''WWW-Authenticate'', ''Bearer'')]"

definition get_current_user :: "jose \<Rightarrow> string \<Rightarrow> Session \<Rightarrow> (exn + User) \<times> Session" where
  "get_current_user jwt token db =
     (case jwt_decode jwt token SECRET_KEY [ALGORITHM] of
        Inl e \<Rightarrow> (Inl credentials_exception, db)
      | Inr payload \<Rightarrow>
          (case map_of payload ''sub'' of
             None \<Rightarrow> (Inl credentials_exception, db)
           | Some username \<Rightarrow>
               (case query_user_by_name username db of
                  (None, db1) \<Rightarrow> (Inl credentials_exception, db1)
                | (Some user, db1) \<Rightarrow> (Inr user, db1))))"

section \<open>app/crud.py\<close>

text \<open>
  \<^verbatim>\<open>db.add\<close>, \<^verbatim>\<open>db.commit\<close>, \<^verbatim>\<open>db.refresh\<close>: the row gets the next value of the table's id
  sequence and is appended. \<^verbatim>\<open>Product.user_id\<close> is declared
  \<^verbatim>\<open>ForeignKey("users.id")\<close>, so the commit of a product whose \<^verbatim>\<open>user_id\<close> is no user's id
  raises \<^verbatim>\<open>IntegrityError\<close> and stores nothing (the sequence value is used up all the same).
\<close>

definition crud_create_product :: "Session \<Rightarrow> ProductCreate \<Rightarrow> (exn + Product) \<times> Session" where
  "crud_create_product db product =
     (let db_product = \<lparr>p_id = products_seq db + 1, p_name = pc_name product,
                         p_price = pc_price product, p_user_id = pc_user_id product\<rparr>
      in if pc_user_id product \<in> set (map u_id (users db))
         then (Inr db_product,
               db\<lparr>products := products db @ [db_product], products_seq := products_seq db + 1\<rparr>)
         else (Inl (IntegrityError ''products_user_id_fkey''),
               db\<lparr>products_seq := products_seq db + 1\<rparr>))"

definition crud_create_sale :: "Session \<Rightarrow> SalesCreate \<Rightarrow> (exn + Sales) \<times> Session" where
  "crud_create_sale db sale =
     (case query_product_by_id (sc_product_id sale) db of (product, db1) \<Rightarrow>
      case query_user_by_id (sc_user_id sale) db1 of (user, db2) \<Rightarrow>
      (case product of
         None \<Rightarrow> (Inl (ValueError ''Product not found''), db2)
       | Some p \<Rightarrow>
          (case user of
             None \<Rightarrow> (Inl (ValueError ''User not found''), db2)
           | Some u \<Rightarrow>
              (let db_sale = \<lparr>s_id = sales_seq db2 + 1, s_product_id = sc_product_id sale,
                              s_user_id = sc_user_id sale\<rparr>
               in (Inr \<lparr>sales_id = s_id db_sale, sales_product_id = s_product_id db_sale,
                        sales_product_name = p_name p, sales_user_id = s_user_id db_sale,
                        sales_user_name = u_name u\<rparr>,
                   db2\<lparr>sales := sales db2 @ [db_sale], sales_seq := sales_seq db2 + 1\<rparr>)))))"

section \<open>app/main.py\<close>

text \<open>
  An endpoint that declares \<^verbatim>\<open>Depends(get_current_user)\<close> runs \<^verbatim>\<open>get_current_user\<close> on the
  bearer token first, on the request's session; if that raises, the body does not run.
\<close>

definition login_for_access_token ::
  "CryptContext \<Rightarrow> jose \<Rightarrow> int \<Rightarrow> OAuth2PasswordRequestForm \<Rightarrow> Session \<Rightarrow> (exn + Token) \<times> Session" where
  "login_for_access_token pwd_context jwt now form_data db =
     (case authenticate_user pwd_context db (form_username form_data) (form_password form_data) of
        (Inl e, db1) \<Rightarrow> (Inl e, db1)
      | (Inr None, db1) \<Rightarrow>
          (Inl (HTTPException 401 ''Incorrect username or password''
                  [(''WWW-Authenticate'', ''Bearer'')]), db1)
      | (Inr (Some user), db1) \<Rightarrow>
          (case create_access_token jwt [(''sub'', Str (u_name user))]
                  (Some (timedelta_minutes ACCESS_TOKEN_EXPIRE_MINUTES)) now of
             Inl e \<Rightarrow> (Inl e, db1)
           | Inr tok \<Rightarrow> (Inr \<lparr>access_token = tok, token_type = ''bearer''\<rparr>, db1)))"

definition main_create_product ::
  "jose \<Rightarrow> ProductCreate \<Rightarrow> string \<Rightarrow> Session \<Rightarrow> (exn + Product) \<times> Session" where
  "main_create_product jwt product token db =
     (case get_current_user jwt token db of
        (Inl e, db1) \<Rightarrow> (Inl e, db1)
      | (Inr current_user, db1) \<Rightarrow> crud_create_product db1 product)"

definition main_create_sale ::
  "jose \<Rightarrow> SalesCreate \<Rightarrow> string \<Rightarrow> Session \<Rightarrow> (exn + Sales) \<times> Session" where
  "main_create_sale jwt sale token db =
     (case get_current_user jwt token db of
        (Inl e, db1) \<Rightarrow> (Inl e, db1)
      | (Inr current_user, db1) \<Rightarrow> crud_create_sale db1 sale)"

section \<open>The token codec\<close>

text \<open>
  \<^verbatim>\<open>jwt.encode\<close> and \<^verbatim>\<open>jwt.decode\<close> belong to the python-jose package, which is imported by
  \<^verbatim>\<open>app/auth.py\<close> and is not among the repository's files. The codec is therefore written
  down from the specification (sections 4.2 and 6). What the specification leaves to
  lower layers is a record of primitives: base64url coding of a segment, JSON coding of a
  dictionary, and the keyed signature for a named algorithm. Decoding a segment or parsing
  JSON may fail, which is \<open>None\<close>.
\<close>

record prims =
  b64encode :: "string \<Rightarrow> string"
  b64decode :: "string \<Rightarrow> string option"
  json_dumps :: "claims \<Rightarrow> string"
  json_loads :: "string \<Rightarrow> claims option"
  hmac :: "string \<Rightarrow> string \<Rightarrow> string \<Rightarrow> string"

text \<open>
  Modelled from the spec: the splitting of a token string into its dot-separated segments
  (part of python-jose, absent from the sources). \<open>split_first\<close> cuts at the first dot and
  \<open>split_last\<close> at the last one; a string without a dot has not enough segments.
\<close>

definition split_first :: "string \<Rightarrow> (string \<times> string) option" where
  "split_first s =
     (if CHR ''.'' \<in> set s
      then Some (takeWhile (\<lambda>c. c \<noteq> CHR ''.'') s, tl (dropWhile (\<lambda>c. c \<noteq> CHR ''.'') s))
      else None)"

definition split_last :: "string \<Rightarrow> (string \<times> string) option" where
  "split_last s =
     (if CHR ''.'' \<in> set s
      then Some (rev (tl (dropWhile (\<lambda>c. c \<noteq> CHR ''.'') (rev s))),
                 rev (takeWhile (\<lambda>c. c \<noteq> CHR ''.'') (rev s)))
      else None)"

text \<open>
  Modelled from the spec: the signing step of \<^verbatim>\<open>jwt.encode\<close> (python-jose, absent from the
  sources). Section 6: three base64url-encoded, dot-separated segments, a header that
  declares algorithm and token type, the claims, and a signature over header and claims
  under the server key.
\<close>

definition jws_sign :: "prims \<Rightarrow> claims \<Rightarrow> string \<Rightarrow> string \<Rightarrow> string" where
  "jws_sign P c key algorithm =
     (let encoded_header = b64encode P (json_dumps P [(''alg'', Str algorithm), (''typ'', Str ''JWT'')]);
          encoded_claims = b64encode P (json_dumps P c);
          signing_input = encoded_header @ ''.'' @ encoded_claims
      in signing_input @ ''.'' @ b64encode P (hmac P algorithm key signing_input))"

text \<open>
  Modelled from the spec: the conversion of the expiry in \<^verbatim>\<open>jwt.encode\<close> (python-jose,
  absent from the sources). Section 6 puts \<^verbatim>\<open>exp\<close> into the payload as epoch seconds, so a
  \<^verbatim>\<open>datetime\<close> under \<^verbatim>\<open>exp\<close> becomes its whole number of seconds.
\<close>

definition time_claim :: "string \<times> claim \<Rightarrow> string \<times> claim" where
  "time_claim kv =
     (case kv of
        (k, Datetime t) \<Rightarrow> if k = ''exp'' then (k, Num (t div 1000000)) else kv
      | _ \<Rightarrow> kv)"

definition is_datetime :: "claim \<Rightarrow> bool" where
  "is_datetime v = (case v of Datetime _ \<Rightarrow> True | _ \<Rightarrow> False)"

text \<open>
  Modelled from the spec: \<^verbatim>\<open>jwt.encode\<close> (python-jose, absent from the sources). A
  \<^verbatim>\<open>datetime\<close> left under any other key cannot be written as JSON.
\<close>

definition jose_encode :: "prims \<Rightarrow> claims \<Rightarrow> string \<Rightarrow> string \<Rightarrow> exn + string" where
  "jose_encode P c key algorithm =
     (let c1 = map time_claim c
      in if list_ex (\<lambda>kv. is_datetime (snd kv)) c1
         then Inl (TypeError ''Object of type datetime is not JSON serializable'')
         else Inr (jws_sign P c1 key algorithm))"

text \<open>
  Modelled from the spec: the parsing step of \<^verbatim>\<open>jwt.decode\<close> (python-jose, absent from the
  sources). It yields the header, the payload bytes, the signing input and the signature
  bytes, or \<open>Malformed\<close> when the token cannot be parsed.
\<close>

definition jws_load :: "prims \<Rightarrow> string \<Rightarrow> JWTError + (claims \<times> string \<times> string \<times> string)" where
  "jws_load P token =
     (case split_last token of
        None \<Rightarrow> Inl Malformed
      | Some (signing_input, crypto_segment) \<Rightarrow>
     (case split_first signing_input of
        None \<Rightarrow> Inl Malformed
      | Some (header_segment, claims_segment) \<Rightarrow>
     (case b64decode P header_segment of
        None \<Rightarrow> Inl Malformed
      | Some header_data \<Rightarrow>
     (case json_loads P header_data of
        None \<Rightarrow> Inl Malformed
      | Some header \<Rightarrow>
     (case b64decode P claims_segment of
        None \<Rightarrow> Inl Malformed
      | Some payload \<Rightarrow>
     (case b64decode P crypto_segment of
        None \<Rightarrow> Inl Malformed
      | Some signature \<Rightarrow> Inr (header, payload, signing_input, signature)))))))"

text \<open>
  Modelled from the spec: the expiry check of \<^verbatim>\<open>jwt.decode\<close> (python-jose, absent from the
  sources). Section 4.2: verification checks \<^verbatim>\<open>expiry > now\<close> and fails with \<open>Expired\<close>
  otherwise; the token's state machine has it \<open>Expired\<close> when \<^verbatim>\<open>now >= expiry\<close>. \<^verbatim>\<open>exp\<close> is in
  whole epoch seconds (section 6) and \<open>now\<close> is the verifier's clock in microseconds, so the
  expiry instant is \<open>e * 1000000\<close>. Section 3: the expiry of a claims set is always set, so a
  payload without \<^verbatim>\<open>exp\<close>, or with an \<^verbatim>\<open>exp\<close> that is no number of seconds, cannot be parsed as
  a claims set.
\<close>

definition validate_claims :: "int \<Rightarrow> claims \<Rightarrow> JWTError + claims" where
  "validate_claims now c =
     (case map_of c ''exp'' of
        Some (Num e) \<Rightarrow> if e * 1000000 \<le> now then Inl Expired else Inr c
      | Some _ \<Rightarrow> Inl Malformed
      | None \<Rightarrow> Inl Malformed)"

text \<open>
  Modelled from the spec: \<^verbatim>\<open>jwt.decode\<close> (python-jose, absent from the sources). Section 4.2:
  the signature is checked against the server key and the declared algorithm, which must
  match an expected one exactly (a token asserting a different or the \<^verbatim>\<open>none\<close> algorithm is
  rejected); the failure of this check is \<open>InvalidSignature\<close>. Then the payload is parsed
  (\<open>Malformed\<close>) and the expiry is checked. A header that declares no algorithm cannot be
  parsed as a header.
\<close>

definition jose_decode ::
  "prims \<Rightarrow> int \<Rightarrow> string \<Rightarrow> string \<Rightarrow> string list \<Rightarrow> JWTError + claims" where
  "jose_decode P now token key algorithms =
     (case jws_load P token of
        Inl e \<Rightarrow> Inl e
      | Inr (header, payload, signing_input, signature) \<Rightarrow>
          (case map_of header ''alg'' of
             Some (Str alg) \<Rightarrow>
               if alg \<notin> set algorithms \<or> alg = ''none'' then Inl InvalidSignature
               else if signature \<noteq> hmac P alg key signing_input then Inl InvalidSignature
               else (case json_loads P payload of
                       None \<Rightarrow> Inl Malformed
                     | Some c \<Rightarrow> validate_claims now c)
           | _ \<Rightarrow> Inl Malformed))"

text \<open>The library handle given to \<^verbatim>\<open>app/auth.py\<close> when the clock reads \<open>now\<close>.\<close>

definition python_jose :: "prims \<Rightarrow> int \<Rightarrow> jose" where
  "python_jose P now = \<lparr>jwt_encode = jose_encode P, jwt_decode = jose_decode P now\<rparr>"

text \<open>
  The primitives round-trip a dictionary \<open>d\<close>: its segment holds no dot, decodes to the
  bytes that were encoded, and these parse back to \<open>d\<close>. Likewise for signature bytes.
\<close>

definition carries :: "prims \<Rightarrow> claims \<Rightarrow> bool" where
  "carries P d \<longleftrightarrow>
     CHR ''.'' \<notin> set (b64encode P (json_dumps P d)) \<and>
     b64decode P (b64encode P (json_dumps P d)) = Some (json_dumps P d) \<and>
     json_loads P (json_dumps P d) = Some d"

definition carries_bytes :: "prims \<Rightarrow> string \<Rightarrow> bool" where
  "carries_bytes P b \<longleftrightarrow>
     CHR ''.'' \<notin> set (b64encode P b) \<and> b64decode P (b64encode P b) = Some b"

section \<open>The password context\<close>

text \<open>
  \<^verbatim>\<open>pwd_context\<close> is \<^verbatim>\<open>CryptContext(schemes=["bcrypt"], deprecated="auto")\<close> of the passlib
  package, which is not among the repository's files. Its \<^verbatim>\<open>verify\<close> first identifies the
  stored string against the configured schemes and raises \<^verbatim>\<open>UnknownHashError\<close> when none
  recognises it; a bcrypt hash is recognised by its identifier prefix. The handler of the
  recognised scheme is the argument \<open>handler\<close>.
\<close>

definition bcrypt_ident_values :: "string list" where
  "bcrypt_ident_values = [''$2$'', ''$2a$'', ''$2x$'', ''$2y$'', ''$2b$'']"

definition bcrypt_identify :: "string \<Rightarrow> bool" where
  "bcrypt_identify h = list_ex (\<lambda>i. take (length i) h = i) bcrypt_ident_values"

definition passlib_verify :: "(string \<Rightarrow> string \<Rightarrow> exn + bool) \<Rightarrow> CryptContext" where
  "passlib_verify handler secret h =
     (if bcrypt_identify h then handler secret h
      else Inl (UnknownHashError ''hash could not be identified''))"

text \<open>
  The bcrypt handler of passlib (not among the repository's files either). A stored string
  is a bcrypt hash when it is an identifier other than \<^verbatim>\<open>$2x$\<close>, a cost of two decimal digits
  between 04 and 31, a dollar sign, 22 salt characters and 31 digest characters, the last two
  over the bcrypt base64 alphabet; anything else that carries an identifier is malformed, and
  the handler raises a \<^verbatim>\<open>ValueError\<close> for it (passlib has several messages for this, the model
  keeps one). The padding bits that the last salt character (four bits) and the last digest
  character (two bits) leave unused are cleared before use.
\<close>

definition bcrypt64_chars :: string where
  "bcrypt64_chars = ''./ABCDEFGHIJKLMNOPQRSTUVWXYZabcdefghijklmnopqrstuvwxyz0123456789''"

definition bcrypt64_index :: "char \<Rightarrow> nat" where
  "bcrypt64_index c = length (takeWhile (\<lambda>x. x \<noteq> c) bcrypt64_chars)"

definition repair_unused :: "nat \<Rightarrow> string \<Rightarrow> string" where
  "repair_unused m s =
     (if s = [] then s
      else butlast s @
           [bcrypt64_chars ! (bcrypt64_index (last s) - bcrypt64_index (last s) mod m)])"

definition digit_value :: "char \<Rightarrow> nat" where
  "digit_value c = length (takeWhile (\<lambda>x. x \<noteq> c) ''0123456789'')"

definition bcrypt_from_string :: "string \<Rightarrow> (string \<times> nat \<times> string \<times> string) option" where
  "bcrypt_from_string h =
     (case find (\<lambda>i. take (length i) h = i) bcrypt_ident_values of
        None \<Rightarrow> None
      | Some ident \<Rightarrow>
          (let tail = drop (length ident) h;
               rounds_str = takeWhile (\<lambda>c. c \<noteq> CHR ''$'') tail;
               rest = dropWhile (\<lambda>c. c \<noteq> CHR ''$'') tail
           in if ident = ''$2x$'' then None
              else if rest = [] \<or> CHR ''$'' \<in> set (tl rest) then None
              else (case rounds_str of
                      [d1, d2] \<Rightarrow>
                        (let rounds = 10 * digit_value d1 + digit_value d2;
                             salt = take 22 (tl rest);
                             digest = drop 22 (tl rest)
                         in if d1 \<notin> set ''0123456789'' \<or> d2 \<notin> set ''0123456789'' then None
                            else if rounds < 4 \<or> 31 < rounds then None
                            else if length salt \<noteq> 22 \<or>
                                    \<not> list_all (\<lambda>c. c \<in> set bcrypt64_chars) salt then None
                            else if length digest \<noteq> 31 \<or>
                                    \<not> list_all (\<lambda>c. c \<in> set bcrypt64_chars) digest then None
                            else Some (ident, rounds, repair_unused 16 salt, repair_unused 4 digest))
                    | _ \<Rightarrow> None)))"

text \<open>
  Verification by the bcrypt handler: the stored string is parsed, the digest of the secret
  under the stored identifier, cost and salt is recomputed, and the two digests are compared.
  The argument \<open>digest\<close> stands for the handler's checks of the secret together with the bcrypt
  computation itself: it returns the 31 digest characters, or raises where the handler or
  the bcrypt library refuses the secret.
\<close>

type_synonym bcrypt_digest = "string \<Rightarrow> nat \<Rightarrow> string \<Rightarrow> string \<Rightarrow> exn + string"

definition bcrypt_verify :: "bcrypt_digest \<Rightarrow> string \<Rightarrow> string \<Rightarrow> exn + bool" where
  "bcrypt_verify digest secret h =
     (case bcrypt_from_string h of
        None \<Rightarrow> Inl (ValueError ''malformed bcrypt hash'')
      | Some (ident, rounds, salt, chk) \<Rightarrow>
          (case digest ident rounds salt secret of
             Inl e \<Rightarrow> Inl e
           | Inr d \<Rightarrow> Inr (d = chk)))"

text \<open>The \<^verbatim>\<open>pwd_context\<close> of \<^verbatim>\<open>app/auth.py\<close>: bcrypt is its only scheme.\<close>

definition bcrypt_context :: "bcrypt_digest \<Rightarrow> CryptContext" where
  "bcrypt_context digest = passlib_verify (bcrypt_verify digest)"


section \<open>Stored state\<close>

text \<open>What is stored: the rows of the three tables. Lookups read it and leave it as it is.\<close>

definition stored :: "Session \<Rightarrow> User list \<times> Product list \<times> Sale list" where
  "stored db = (users db, products db, sales db)"

section \<open>Concrete instances for running the definitions\<close>

text \<open>
  A small instance of the primitives: segments are written in clear, a dictionary is
  coded through a finite code book, and the signature is the key followed by the message
  without its dots.
\<close>

definition book_prims :: "(claims \<times> string) list \<Rightarrow> prims" where
  "book_prims book =
     \<lparr>b64encode = (\<lambda>b. b),
      b64decode = (\<lambda>s. Some s),
      json_dumps = (\<lambda>d. case map_of book d of Some s \<Rightarrow> s | None \<Rightarrow> []),
      json_loads = (\<lambda>s. map_of (map (\<lambda>(d, t). (t, d)) book) s),
      hmac = (\<lambda>alg key msg. alg @ key @ filter (\<lambda>c. c \<noteq> CHR ''.'') msg)\<rparr>"

definition alice_book :: "(claims \<times> string) list" where
  "alice_book =
     [([(''alg'', Str ''HS256''), (''typ'', Str ''JWT'')], ''alg=HS256,typ=JWT''),
      ([(''alg'', Str ''none''), (''typ'', Str ''JWT'')], ''alg=none,typ=JWT''),
      ([(''sub'', Str ''alice''), (''exp'', Num 1800)], ''sub=alice,exp=1800''),
      ([(''sub'', Str ''alice''), (''exp'', Num 0)], ''sub=alice,exp=0''),
      ([(''sub'', Str ''bob''), (''exp'', Num 1800)], ''sub=bob,exp=1800''),
      ([(''sub'', Str ''carol''), (''exp'', Num 1800)], ''sub=carol,exp=1800''),
      ([(''exp'', Num 1800)], ''exp=1800'')]"

text \<open>
  Tokens of this instance: the ones issued at time 0 for \<^verbatim>\<open>alice\<close>, \<^verbatim>\<open>bob\<close> and \<^verbatim>\<open>carol\<close> with
  thirty minutes to live, one with the same signature scheme and no subject, one whose header
  declares \<^verbatim>\<open>none\<close>, alice's token with another signature, and the token issued at time 0 for
  \<^verbatim>\<open>alice\<close> with one microsecond to live.
\<close>

definition alice_token :: string where
  "alice_token =
     ''alg=HS256,typ=JWT.sub=alice,exp=1800.HS256a_secure_secret_keyalg=HS256,typ=JWTsub=alice,exp=1800''"

definition bob_token :: string where
  "bob_token =
     ''alg=HS256,typ=JWT.sub=bob,exp=1800.HS256a_secure_secret_keyalg=HS256,typ=JWTsub=bob,exp=1800''"

definition carol_token :: string where
  "carol_token =
     ''alg=HS256,typ=JWT.sub=carol,exp=1800.HS256a_secure_secret_keyalg=HS256,typ=JWTsub=carol,exp=1800''"

definition anonymous_token :: string where
  "anonymous_token =
     ''alg=HS256,typ=JWT.exp=1800.HS256a_secure_secret_keyalg=HS256,typ=JWTexp=1800''"

definition none_token :: string where
  "none_token = ''alg=none,typ=JWT.sub=alice,exp=1800.''"

definition forged_token :: string where
  "forged_token = ''alg=HS256,typ=JWT.sub=alice,exp=1800.forged''"

definition instant_token :: string where
  "instant_token =
     ''alg=HS256,typ=JWT.sub=alice,exp=0.HS256a_secure_secret_keyalg=HS256,typ=JWTsub=alice,exp=0''"

text \<open>
  Two accounts whose stored strings have the form of a bcrypt hash, a session that holds them,
  and the same session with one more account whose stored string is no hash at all.
\<close>

definition alice :: User where
  "alice = \<lparr>u_id = 1, u_name = ''alice'',
            u_password = ''$2a$05$CCCCCCCCCCCCCCCCCCCCC.E5YPO9kmyuRGyh0XouQYb4YMJKvyOeW''\<rparr>"

definition bob :: User where
  "bob = \<lparr>u_id = 2, u_name = ''bob'',
          u_password = ''$2a$05$XXXXXXXXXXXXXXXXXXXXXOAcXxm9kjPGEMsLznoKqmqw7tc8WCx4a''\<rparr>"

definition shop :: Session where
  "shop = \<lparr>users = [alice, bob],
           products = [\<lparr>p_id = 1, p_name = ''tea'', p_price = 3, p_user_id = 1\<rparr>],
           sales = [], products_seq = 1, sales_seq = 0, lookups = []\<rparr>"

definition dave :: User where
  "dave = \<lparr>u_id = 3, u_name = ''dave'', u_password = ''pw123''\<rparr>"

definition legacy_shop :: Session where
  "legacy_shop = shop\<lparr>users := [alice, bob, dave]\<rparr>"

text \<open>
  A stand-in for the bcrypt computation, which is not modelled. Like passlib's bcrypt
  handler it refuses a secret that holds a NUL character; otherwise it returns 31 characters
  made of the secret and the salt. It is not bcrypt: it serves where all that matters is that
  the recomputed digest differs from the stored one.
\<close>

definition stand_in_digest :: bcrypt_digest where
  "stand_in_digest ident rounds salt secret =
     (if CHR 0x00 \<in> set secret
      then Inl (ValueError ''bcrypt does not allow NULL bytes in password'')
      else Inr (take 31 (secret @ salt @ salt)))"

section \<open>Properties\<close>

subsection \<open>Lookups and the frame of identity resolution\<close>

lemma find_distinct_key:
  "distinct (map f xs) \<Longrightarrow> x \<in> set xs \<Longrightarrow> find (\<lambda>y. f y = f x) xs = Some x"
  by (induction xs) (auto simp: image_iff)

lemma find_absent: "k \<notin> f ` set xs \<Longrightarrow> find (\<lambda>y. f y = k) xs = None"
  by (auto simp: find_None_iff)

lemma find_present: "k \<in> f ` set xs \<Longrightarrow> \<exists>x. find (\<lambda>y. f y = k) xs = Some x"
  by (cases "find (\<lambda>y. f y = k) xs") (auto simp: find_None_iff)

lemma get_current_user_frame:
  "get_current_user jwt token db = (r, db1) \<Longrightarrow>
   users db1 = users db \<and> products db1 = products db \<and> sales db1 = sales db \<and>
   products_seq db1 = products_seq db \<and> sales_seq db1 = sales_seq db"
  by (auto simp add: get_current_user_def query_user_by_name_def
      split: sum.splits option.splits prod.splits)

subsection \<open>Segments of a signed token\<close>

lemma takeWhile_dot:
  "CHR ''.'' \<notin> set a \<Longrightarrow> takeWhile (\<lambda>c. c \<noteq> CHR ''.'') (a @ CHR ''.'' # b) = a"
  by (induction a) auto

lemma dropWhile_dot:
  "CHR ''.'' \<notin> set a \<Longrightarrow> dropWhile (\<lambda>c. c \<noteq> CHR ''.'') (a @ CHR ''.'' # b) = CHR ''.'' # b"
  by (induction a) auto

lemma split_first_append:
  "CHR ''.'' \<notin> set a \<Longrightarrow> split_first (a @ CHR ''.'' # b) = Some (a, b)"
  by (simp add: split_first_def takeWhile_dot dropWhile_dot)

lemma split_last_append:
  assumes "CHR ''.'' \<notin> set b"
  shows "split_last (a @ CHR ''.'' # b) = Some (a, b)"
proof -
  have r: "rev (a @ CHR ''.'' # b) = rev b @ CHR ''.'' # rev a"
    by simp
  have n: "CHR ''.'' \<notin> set (rev b)"
    using assms by simp
  have "CHR ''.'' \<in> set (a @ CHR ''.'' # b)"
    by simp
  then show ?thesis
    unfolding split_last_def r
    by (simp only: takeWhile_dot [OF n] dropWhile_dot [OF n] if_True list.sel rev_rev_ident)
qed

lemma jws_load_sign:
  assumes "carries P [(''alg'', Str algorithm), (''typ'', Str ''JWT'')]"
    and "b64decode P (b64encode P (json_dumps P c)) = Some (json_dumps P c)"
    and "\<forall>m. carries_bytes P (hmac P algorithm key m)"
  shows "jws_load P (jws_sign P c key algorithm) =
     Inr ([(''alg'', Str algorithm), (''typ'', Str ''JWT'')], json_dumps P c,
          b64encode P (json_dumps P [(''alg'', Str algorithm), (''typ'', Str ''JWT'')]) @ ''.'' @
            b64encode P (json_dumps P c),
          hmac P algorithm key
            (b64encode P (json_dumps P [(''alg'', Str algorithm), (''typ'', Str ''JWT'')]) @ ''.'' @
             b64encode P (json_dumps P c)))"
proof -
  let ?h = "b64encode P (json_dumps P [(''alg'', Str algorithm), (''typ'', Str ''JWT'')])"
  let ?c = "b64encode P (json_dumps P c)"
  let ?s = "hmac P algorithm key (?h @ CHR ''.'' # ?c)"
  have sg: "CHR ''.'' \<notin> set (b64encode P ?s)" "b64decode P (b64encode P ?s) = Some ?s"
    using assms(3) by (simp_all add: carries_bytes_def)
  have hd: "CHR ''.'' \<notin> set ?h" "b64decode P ?h = Some (json_dumps P [(''alg'', Str algorithm), (''typ'', Str ''JWT'')])"
    "json_loads P (json_dumps P [(''alg'', Str algorithm), (''typ'', Str ''JWT'')]) = Some [(''alg'', Str algorithm), (''typ'', Str ''JWT'')]"
    using assms(1) by (simp_all add: carries_def)
  have t: "jws_sign P c key algorithm = (?h @ CHR ''.'' # ?c) @ CHR ''.'' # b64encode P ?s"
    by (simp add: jws_sign_def Let_def)
  have l: "split_last (jws_sign P c key algorithm) = Some (?h @ CHR ''.'' # ?c, b64encode P ?s)"
    unfolding t using sg(1) by (rule split_last_append)
  have f: "split_first (?h @ CHR ''.'' # ?c) = Some (?h, ?c)"
    using hd(1) by (rule split_first_append)
  show ?thesis
    by (simp add: jws_load_def l f hd sg assms(2))
qed


lemma issue_claims:
  assumes "0 < ttl" and "datetime_min \<le> now" and "now + ttl \<le> datetime_max"
  shows "create_access_token (python_jose P now) [(''sub'', Str subject)] (Some ttl) now =
     Inr (jws_sign P [(''sub'', Str subject), (''exp'', Num ((now + ttl) div 1000000))]
            SECRET_KEY ALGORITHM)"
  using assms
  by (simp add: create_access_token_def to_encode_def datetime_add_def python_jose_def
      jose_encode_def time_claim_def is_datetime_def)

lemma issue_overflow:
  assumes "datetime_max < now + ttl"
  shows "create_access_token jwt data (Some ttl) now =
     Inl (OverflowError ''date value out of range'')"
proof -
  have m: "timedelta_minutes ACCESS_TOKEN_EXPIRE_MINUTES > 0"
    by (simp add: timedelta_minutes_def ACCESS_TOKEN_EXPIRE_MINUTES_def)
  show ?thesis
    using assms m
    by (auto simp add: create_access_token_def to_encode_def datetime_add_def)
qed

lemma decode_signed:
  assumes "carries P [(''alg'', Str ALGORITHM), (''typ'', Str ''JWT'')]"
    and "carries P [(''sub'', Str subject), (''exp'', Num e)]"
    and "\<forall>m. carries_bytes P (hmac P ALGORITHM SECRET_KEY m)"
  shows "jose_decode P now
           (jws_sign P [(''sub'', Str subject), (''exp'', Num e)] SECRET_KEY ALGORITHM)
           SECRET_KEY [ALGORITHM] =
         (if e * 1000000 \<le> now then Inl Expired
          else Inr [(''sub'', Str subject), (''exp'', Num e)])"
proof -
  have d: "b64decode P (b64encode P (json_dumps P [(''sub'', Str subject), (''exp'', Num e)])) =
      Some (json_dumps P [(''sub'', Str subject), (''exp'', Num e)])"
    "json_loads P (json_dumps P [(''sub'', Str subject), (''exp'', Num e)]) =
      Some [(''sub'', Str subject), (''exp'', Num e)]"
    using assms(2) by (simp_all add: carries_def)
  have n: "ALGORITHM \<noteq> ''none''"
    by (simp add: ALGORITHM_def)
  show ?thesis
    by (simp add: jose_decode_def jws_load_sign [OF assms(1) d(1) assms(3)] n d(2)
        validate_claims_def)
qed

lemma whole_second_after:
  "1000000 \<le> ttl \<Longrightarrow> now < (now + ttl) div 1000000 * (1000000::int)"
  by simp

lemma bcrypt_from_string_identified:
  "bcrypt_from_string h = Some x \<Longrightarrow> bcrypt_identify h"
  by (cases "find (\<lambda>i. take (length i) h = i) bcrypt_ident_values")
     (auto simp add: bcrypt_from_string_def bcrypt_identify_def list_ex_iff find_Some_iff)

subsection \<open>The instance, evaluated\<close>

lemmas codec_defs = python_jose_def jose_encode_def jose_decode_def jws_sign_def jws_load_def
  split_first_def split_last_def book_prims_def alice_book_def validate_claims_def
  time_claim_def is_datetime_def SECRET_KEY_def ALGORITHM_def

lemma resolve_alice:
  "get_current_user (python_jose (book_prims alice_book) 5) alice_token shop =
     (Inr alice, shop\<lparr>lookups := [UserByName (Str ''alice'')]\<rparr>)"
  by (simp add: get_current_user_def query_user_by_name_def codec_defs alice_token_def
      shop_def alice_def bob_def)

lemma resolve_bob:
  "get_current_user (python_jose (book_prims alice_book) 5) bob_token shop =
     (Inr bob, shop\<lparr>lookups := [UserByName (Str ''bob'')]\<rparr>)"
  by (simp add: get_current_user_def query_user_by_name_def codec_defs bob_token_def
      shop_def alice_def bob_def)

lemma decode_carol:
  "jwt_decode (python_jose (book_prims alice_book) 5) carol_token SECRET_KEY [ALGORITHM] =
     Inr [(''sub'', Str ''carol''), (''exp'', Num 1800)]"
  by (simp add: codec_defs carol_token_def)

lemma decode_anonymous:
  "jwt_decode (python_jose (book_prims alice_book) 5) anonymous_token SECRET_KEY [ALGORITHM] =
     Inr [(''exp'', Num 1800)]"
  by (simp add: codec_defs anonymous_token_def)

lemma decode_garbage:
  "jwt_decode (python_jose (book_prims alice_book) 5) ''not-a-token'' SECRET_KEY [ALGORITHM] =
     Inl Malformed"
  by (simp add: codec_defs)

lemma load_none_token:
  "jws_load (book_prims alice_book) none_token =
     Inr ([(''alg'', Str ''none''), (''typ'', Str ''JWT'')], ''sub=alice,exp=1800'',
          ''alg=none,typ=JWT.sub=alice,exp=1800'', [])"
  by (simp add: codec_defs none_token_def)

lemma load_forged_token:
  "jws_load (book_prims alice_book) forged_token =
     Inr ([(''alg'', Str ''HS256''), (''typ'', Str ''JWT'')], ''sub=alice,exp=1800'',
          ''alg=HS256,typ=JWT.sub=alice,exp=1800'', ''forged'')"
  by (simp add: codec_defs forged_token_def)

lemma book_carries:
  "carries (book_prims alice_book) [(''alg'', Str ALGORITHM), (''typ'', Str ''JWT'')]"
  "carries (book_prims alice_book) [(''sub'', Str ''alice''), (''exp'', Num 1800)]"
  "\<forall>m. carries_bytes (book_prims alice_book) (hmac (book_prims alice_book) ALGORITHM SECRET_KEY m)"
  by (simp_all add: carries_def carries_bytes_def book_prims_def alice_book_def ALGORITHM_def
      SECRET_KEY_def)

lemma alice_hash:
  "bcrypt_from_string (u_password alice) =
     Some (''$2a$'', 5, ''CCCCCCCCCCCCCCCCCCCCC.'', ''E5YPO9kmyuRGyh0XouQYb4YMJKvyOeW'')"
  by (simp add: alice_def bcrypt_from_string_def bcrypt_ident_values_def digit_value_def
      repair_unused_def bcrypt64_index_def bcrypt64_chars_def)

lemma issue_instant:
  "create_access_token (python_jose (book_prims alice_book) 0) [(''sub'', Str ''alice'')]
     (Some 1) 0 = Inr instant_token"
  by (simp add: create_access_token_def to_encode_def datetime_add_def datetime_min_def
      datetime_max_def codec_defs instant_token_def)

lemma issue_alice:
  "create_access_token (python_jose (book_prims alice_book) 0) [(''sub'', Str ''alice'')]
     (Some 1800000000) 0 = Inr alice_token"
  by (simp add: create_access_token_def to_encode_def datetime_add_def datetime_min_def
      datetime_max_def codec_defs alice_token_def)

subsection \<open>The token codec\<close>

text \<open>
  Claim C1, as stated, fails for two kinds of duration above zero. One so long that the clock
  plus the duration is past the last \<^verbatim>\<open>datetime\<close> issues no token: \<^verbatim>\<open>create_access_token\<close> raises
  \<^verbatim>\<open>OverflowError\<close>. One so short that the expiry, in whole seconds, is not after the clock
  gives a token that is \<open>Expired\<close> at the moment of issuance (here one microsecond at time 0).
\<close>

theorem issued_token_counterexample:
  "create_access_token (python_jose (book_prims alice_book) 0) [(''sub'', Str ''alice'')]
     (Some 253402300800000000) 0 = Inl (OverflowError ''date value out of range'') \<and>
   create_access_token (python_jose (book_prims alice_book) 0) [(''sub'', Str ''alice'')]
     (Some 1) 0 = Inr instant_token \<and>
   jwt_decode (python_jose (book_prims alice_book) 0) instant_token SECRET_KEY [ALGORITHM] =
     Inl Expired"
proof -
  have "datetime_max < 0 + 253402300800000000"
    by (simp add: datetime_max_def)
  then have "create_access_token (python_jose (book_prims alice_book) 0)
      [(''sub'', Str ''alice'')] (Some 253402300800000000) 0 =
      Inl (OverflowError ''date value out of range'')"
    by (rule issue_overflow)
  moreover have "jwt_decode (python_jose (book_prims alice_book) 0) instant_token SECRET_KEY
      [ALGORITHM] = Inl Expired"
    by (simp add: codec_defs instant_token_def)
  ultimately show ?thesis
    using issue_instant by blast
qed

text \<open>
  Claim C1, amended. For every subject and every duration above zero for which the clock plus
  the duration is a \<^verbatim>\<open>datetime\<close>, \<^verbatim>\<open>create_access_token\<close> issues a token for
  \<^verbatim>\<open>{"sub": subject}\<close>, and \<^verbatim>\<open>jwt.decode\<close>, called as \<^verbatim>\<open>get_current_user\<close> calls it (same key, same
  algorithm), accepts it and yields the issued subject at every moment before the whole second
  of the expiry, hence immediately after issuance whenever the duration is at least one
  second; from that second on the token is \<open>Expired\<close>. The primitives are arbitrary; what is
  asked of them is that they round-trip the header, the claims and the signature of this
  token.
\<close>

theorem issued_token_verifies:
  assumes "0 < ttl" and "datetime_min \<le> now" and "now + ttl \<le> datetime_max"
    and "carries P [(''alg'', Str ALGORITHM), (''typ'', Str ''JWT'')]"
    and "carries P [(''sub'', Str subject), (''exp'', Num ((now + ttl) div 1000000))]"
    and "\<forall>m. carries_bytes P (hmac P ALGORITHM SECRET_KEY m)"
  shows "\<exists>token.
           create_access_token (python_jose P now) [(''sub'', Str subject)] (Some ttl) now =
             Inr token \<and>
           (now' < (now + ttl) div 1000000 * 1000000 \<longrightarrow>
              (\<exists>c. jwt_decode (python_jose P now') token SECRET_KEY [ALGORITHM] = Inr c \<and>
                   map_of c ''sub'' = Some (Str subject))) \<and>
           (1000000 \<le> ttl \<longrightarrow>
              (\<exists>c. jwt_decode (python_jose P now) token SECRET_KEY [ALGORITHM] = Inr c \<and>
                   map_of c ''sub'' = Some (Str subject))) \<and>
           ((now + ttl) div 1000000 * 1000000 \<le> now' \<longrightarrow>
              jwt_decode (python_jose P now') token SECRET_KEY [ALGORITHM] = Inl Expired)"
proof -
  let ?c = "[(''sub'', Str subject), (''exp'', Num ((now + ttl) div 1000000))]"
  let ?t = "jws_sign P ?c SECRET_KEY ALGORITHM"
  have i: "create_access_token (python_jose P now) [(''sub'', Str subject)] (Some ttl) now = Inr ?t"
    using assms(1-3) by (rule issue_claims)
  have d: "jwt_decode (python_jose P t) ?t SECRET_KEY [ALGORITHM] =
      (if (now + ttl) div 1000000 * 1000000 \<le> t then Inl Expired else Inr ?c)" for t
    using decode_signed [OF assms(4-6), of t] by (simp add: python_jose_def)
  have s: "map_of ?c ''sub'' = Some (Str subject)"
    by simp
  have a: "now' < (now + ttl) div 1000000 * 1000000 \<longrightarrow>
      (\<exists>c. jwt_decode (python_jose P now') ?t SECRET_KEY [ALGORITHM] = Inr c \<and>
           map_of c ''sub'' = Some (Str subject))"
    using s by (simp add: d)
  have b: "1000000 \<le> ttl \<longrightarrow>
      (\<exists>c. jwt_decode (python_jose P now) ?t SECRET_KEY [ALGORITHM] = Inr c \<and>
           map_of c ''sub'' = Some (Str subject))"
  proof
    assume "1000000 \<le> ttl"
    then have "now < (now + ttl) div 1000000 * 1000000"
      by (rule whole_second_after)
    then show "\<exists>c. jwt_decode (python_jose P now) ?t SECRET_KEY [ALGORITHM] = Inr c \<and>
        map_of c ''sub'' = Some (Str subject)"
      using s by (simp add: d)
  qed
  have c: "(now + ttl) div 1000000 * 1000000 \<le> now' \<longrightarrow>
      jwt_decode (python_jose P now') ?t SECRET_KEY [ALGORITHM] = Inl Expired"
    by (simp add: d)
  from i a b c show ?thesis
    by blast
qed

theorem issued_token_verifies_witness:
  "(\<exists>c. jwt_decode (python_jose (book_prims alice_book) 5) alice_token SECRET_KEY [ALGORITHM] =
          Inr c \<and> map_of c ''sub'' = Some (Str ''alice'')) \<and>
   (\<exists>c. jwt_decode (python_jose (book_prims alice_book) 0) alice_token SECRET_KEY [ALGORITHM] =
          Inr c \<and> map_of c ''sub'' = Some (Str ''alice'')) \<and>
   jwt_decode (python_jose (book_prims alice_book) 1800000000) alice_token SECRET_KEY [ALGORITHM] =
     Inl Expired"
proof -
  have p: "(0::int) < 1800000000" "datetime_min \<le> 0" "0 + 1800000000 \<le> datetime_max"
    by (simp_all add: datetime_min_def datetime_max_def)
  have e: "(0 + 1800000000) div 1000000 = (1800::int)"
    by simp
  have k: "carries (book_prims alice_book)
      [(''sub'', Str ''alice''), (''exp'', Num ((0 + 1800000000) div 1000000))]"
    using book_carries(2) by (simp only: e)
  have q: "(5::int) < (0 + 1800000000) div 1000000 * 1000000" "(1000000::int) \<le> 1800000000"
    "(0 + 1800000000) div 1000000 * 1000000 \<le> (1800000000::int)"
    by simp_all
  from issued_token_verifies [OF p book_carries(1) k book_carries(3), of 5]
  obtain t1 where t1: "create_access_token (python_jose (book_prims alice_book) 0)
        [(''sub'', Str ''alice'')] (Some 1800000000) 0 = Inr t1"
    and v1: "(5::int) < (0 + 1800000000) div 1000000 * 1000000 \<longrightarrow>
        (\<exists>c. jwt_decode (python_jose (book_prims alice_book) 5) t1 SECRET_KEY [ALGORITHM] = Inr c \<and>
             map_of c ''sub'' = Some (Str ''alice''))"
    and v0: "(1000000::int) \<le> 1800000000 \<longrightarrow>
        (\<exists>c. jwt_decode (python_jose (book_prims alice_book) 0) t1 SECRET_KEY [ALGORITHM] = Inr c \<and>
             map_of c ''sub'' = Some (Str ''alice''))"
    by blast
  from issued_token_verifies [OF p book_carries(1) k book_carries(3), of 1800000000]
  obtain t2 where t2: "create_access_token (python_jose (book_prims alice_book) 0)
        [(''sub'', Str ''alice'')] (Some 1800000000) 0 = Inr t2"
    and x: "(0 + 1800000000) div 1000000 * 1000000 \<le> (1800000000::int) \<longrightarrow>
        jwt_decode (python_jose (book_prims alice_book) 1800000000) t2 SECRET_KEY [ALGORITHM] =
          Inl Expired"
    by blast
  have "t1 = alice_token" "t2 = alice_token"
    using t1 t2 issue_alice by simp_all
  with v1 v0 x q show ?thesis
    by blast
qed

text \<open>
  Claim C2. A token that parses and whose header declares \<^verbatim>\<open>none\<close>, any algorithm other than
  the configured \<^verbatim>\<open>HS256\<close>, or no algorithm, is rejected by \<^verbatim>\<open>jwt.decode\<close> as
  \<^verbatim>\<open>get_current_user\<close> calls it (\<^verbatim>\<open>algorithms=[ALGORITHM]\<close>), whatever its payload and signature
  are, and \<^verbatim>\<open>get_current_user\<close> raises the credentials exception: it resolves to no user. When
  the header names an algorithm, the rejection is that of the signature check.
\<close>

theorem other_algorithm_rejected:
  assumes "jws_load P token = Inr (header, payload, signing_input, signature)"
    and "map_of header ''alg'' \<noteq> Some (Str ALGORITHM)"
  shows "(\<exists>e. jwt_decode (python_jose P now) token SECRET_KEY [ALGORITHM] = Inl e) \<and>
         fst (get_current_user (python_jose P now) token db) = Inl credentials_exception \<and>
         (\<forall>alg. map_of header ''alg'' = Some (Str alg) \<longrightarrow>
            jwt_decode (python_jose P now) token SECRET_KEY [ALGORITHM] = Inl InvalidSignature)"
proof -
  have d: "jose_decode P now token SECRET_KEY [ALGORITHM] =
      (case map_of header ''alg'' of Some (Str alg) \<Rightarrow> Inl InvalidSignature | _ \<Rightarrow> Inl Malformed)"
    using assms
    by (simp add: jose_decode_def split: option.splits claim.splits)
  then have "\<exists>e. jose_decode P now token SECRET_KEY [ALGORITHM] = Inl e"
    by (simp split: option.splits claim.splits)
  then show ?thesis
    using d by (auto simp add: get_current_user_def python_jose_def)
qed

theorem other_algorithm_rejected_witness:
  "jwt_decode (python_jose (book_prims alice_book) 5) none_token SECRET_KEY [ALGORITHM] =
     Inl InvalidSignature \<and>
   fst (get_current_user (python_jose (book_prims alice_book) 5) none_token shop) =
     Inl credentials_exception"
proof -
  have a: "map_of [(''alg'', Str ''none''), (''typ'', Str ''JWT'')] ''alg'' \<noteq> Some (Str ALGORITHM)"
    by (simp add: ALGORITHM_def)
  have b: "map_of [(''alg'', Str ''none''), (''typ'', Str ''JWT'')] ''alg'' = Some (Str ''none'')"
    by simp
  from other_algorithm_rejected [OF load_none_token a, of 5 shop] b show ?thesis
    by blast
qed

text \<open>
  Claim C7. A token whose header and payload parse, whose header declares the configured
  algorithm and whose signature bytes are not the signature of its signing input fails
  verification with \<open>InvalidSignature\<close>; \<open>Malformed\<close> is what a token that cannot be parsed
  fails with. The codec tells the two apart.
\<close>

theorem altered_signature_kind:
  assumes "jws_load P token = Inr (header, payload, signing_input, signature)"
    and "map_of header ''alg'' = Some (Str ALGORITHM)"
    and "signature \<noteq> hmac P ALGORITHM SECRET_KEY signing_input"
  shows "jwt_decode (python_jose P now) token SECRET_KEY [ALGORITHM] = Inl InvalidSignature \<and>
         (\<forall>t. (\<forall>x. jws_load P t \<noteq> Inr x) \<longrightarrow>
            jwt_decode (python_jose P now) t SECRET_KEY [ALGORITHM] = Inl Malformed)"
proof (intro conjI allI impI)
  show "jwt_decode (python_jose P now) token SECRET_KEY [ALGORITHM] = Inl InvalidSignature"
    using assms by (simp add: python_jose_def jose_decode_def ALGORITHM_def)
next
  fix t assume n: "\<forall>x. jws_load P t \<noteq> Inr x"
  have "jws_load P t = Inl Malformed"
  proof (cases "jws_load P t")
    case (Inl e)
    then have "e = Malformed"
      by (auto simp add: jws_load_def split: option.splits prod.splits)
    with Inl show ?thesis by simp
  next
    case (Inr x)
    with n show ?thesis by simp
  qed
  then show "jwt_decode (python_jose P now) t SECRET_KEY [ALGORITHM] = Inl Malformed"
    by (simp add: python_jose_def jose_decode_def)
qed

theorem altered_signature_kind_witness:
  "jwt_decode (python_jose (book_prims alice_book) 5) forged_token SECRET_KEY [ALGORITHM] =
     Inl InvalidSignature \<and>
   jwt_decode (python_jose (book_prims alice_book) 5) ''not-a-token'' SECRET_KEY [ALGORITHM] =
     Inl Malformed"
proof -
  have a: "map_of [(''alg'', Str ''HS256''), (''typ'', Str ''JWT'')] ''alg'' = Some (Str ALGORITHM)"
    by (simp add: ALGORITHM_def)
  have b: "''forged'' \<noteq> hmac (book_prims alice_book) ALGORITHM SECRET_KEY
      ''alg=HS256,typ=JWT.sub=alice,exp=1800''"
    by (simp add: book_prims_def ALGORITHM_def)
  have c: "\<forall>x. jws_load (book_prims alice_book) ''not-a-token'' \<noteq> Inr x"
    by (simp add: jws_load_def split_last_def)
  from altered_signature_kind [OF load_forged_token a b, of 5] c show ?thesis
    by blast
qed

subsection \<open>Password verification\<close>




subsection \<open>Login\<close>

text \<open>
  Claim C4, at a session in which the account \<^verbatim>\<open>dave\<close> holds a stored string that is no hash:
  the login of the unknown subject \<^verbatim>\<open>carol\<close> is answered with the \<^verbatim>\<open>HTTPException\<close> of status
  401, while the login of the known subject \<^verbatim>\<open>dave\<close> with a wrong secret raises
  \<^verbatim>\<open>UnknownHashError\<close>, which \<^verbatim>\<open>authenticate_user\<close> and the endpoint let through. The two failures
  differ at the boundary.
\<close>

theorem login_known_subject_raises:
  "fst (login_for_access_token (bcrypt_context stand_in_digest)
          (python_jose (book_prims alice_book) 0) 0
          \<lparr>form_username = ''carol'', form_password = ''guess''\<rparr> legacy_shop) =
     Inl (HTTPException 401 ''Incorrect username or password'' [(''WWW-Authenticate'', ''Bearer'')]) \<and>
   fst (login_for_access_token (bcrypt_context stand_in_digest)
          (python_jose (book_prims alice_book) 0) 0
          \<lparr>form_username = ''dave'', form_password = ''guess''\<rparr> legacy_shop) =
     Inl (UnknownHashError ''hash could not be identified'')"
  by (simp add: login_for_access_token_def authenticate_user_def query_user_by_name_def
      verify_password_def bcrypt_context_def passlib_verify_def bcrypt_identify_def
      bcrypt_ident_values_def legacy_shop_def shop_def alice_def bob_def dave_def)

text \<open>
  Where \<^verbatim>\<open>verify_password\<close> answers the wrong secret with \<^verbatim>\<open>False\<close>, the two failures are the
  same: \<^verbatim>\<open>authenticate_user\<close> returns \<^verbatim>\<open>False\<close> for both, and the login endpoint raises the same
  \<^verbatim>\<open>HTTPException\<close> (status 401, detail \<^verbatim>\<open>Incorrect username or password\<close>, header
  \<^verbatim>\<open>WWW-Authenticate: Bearer\<close>). User names are unique, as the column declares.
\<close>

theorem login_failures_alike:
  assumes "name1 \<notin> u_name ` set (users db)"
    and "distinct (map u_name (users db))"
    and "user \<in> set (users db)" and "u_name user = name2"
    and "verify_password pwd_context secret2 (u_password user) = Inr False"
  shows "fst (login_for_access_token pwd_context jwt now
                \<lparr>form_username = name1, form_password = secret1\<rparr> db) =
           Inl (HTTPException 401 ''Incorrect username or password''
                  [(''WWW-Authenticate'', ''Bearer'')]) \<and>
         fst (login_for_access_token pwd_context jwt now
                \<lparr>form_username = name2, form_password = secret2\<rparr> db) =
           Inl (HTTPException 401 ''Incorrect username or password''
                  [(''WWW-Authenticate'', ''Bearer'')]) \<and>
         fst (authenticate_user pwd_context db name1 secret1) = Inr None \<and>
         fst (authenticate_user pwd_context db name2 secret2) = Inr None"
proof -
  have f1: "find (\<lambda>u. u_name u = name1) (users db) = None"
    using assms(1) by (rule find_absent)
  have f2: "find (\<lambda>u. u_name u = name2) (users db) = Some user"
    using find_distinct_key [OF assms(2) assms(3)] assms(4) by simp
  have a1: "authenticate_user pwd_context db name1 secret1 =
      (Inr None, db\<lparr>lookups := lookups db @ [UserByName (Str name1)]\<rparr>)"
    by (simp add: authenticate_user_def query_user_by_name_def f1)
  have a2: "authenticate_user pwd_context db name2 secret2 =
      (Inr None, db\<lparr>lookups := lookups db @ [UserByName (Str name2)]\<rparr>)"
    by (simp add: authenticate_user_def query_user_by_name_def f2 assms(5))
  show ?thesis
    by (simp add: login_for_access_token_def a1 a2)
qed

theorem login_failures_alike_witness:
  "fst (login_for_access_token (bcrypt_context stand_in_digest)
          (python_jose (book_prims alice_book) 0) 0
          \<lparr>form_username = ''carol'', form_password = ''pw123''\<rparr> shop) =
     Inl (HTTPException 401 ''Incorrect username or password'' [(''WWW-Authenticate'', ''Bearer'')]) \<and>
   fst (login_for_access_token (bcrypt_context stand_in_digest)
          (python_jose (book_prims alice_book) 0) 0
          \<lparr>form_username = ''alice'', form_password = ''guess''\<rparr> shop) =
     Inl (HTTPException 401 ''Incorrect username or password'' [(''WWW-Authenticate'', ''Bearer'')])"
proof -
  have 1: "''carol'' \<notin> u_name ` set (users shop)"
    by (simp add: shop_def alice_def bob_def)
  have 2: "distinct (map u_name (users shop))"
    by (simp add: shop_def alice_def bob_def)
  have 3: "alice \<in> set (users shop)"
    by (simp add: shop_def)
  have 4: "u_name alice = ''alice''"
    by (simp add: alice_def)
  have "bcrypt_identify (u_password alice)"
    using alice_hash by (rule bcrypt_from_string_identified)
  then have 5: "verify_password (bcrypt_context stand_in_digest) ''guess'' (u_password alice) =
      Inr False"
    by (simp add: verify_password_def bcrypt_context_def passlib_verify_def bcrypt_verify_def
        alice_hash stand_in_digest_def)
  from login_failures_alike [OF 1 2 3 4 5] show ?thesis
    by blast
qed

subsection \<open>Identity resolution\<close>

text \<open>
  Claim C5. Whatever the token and whatever the decoding library does, \<^verbatim>\<open>get_current_user\<close>
  fails in one way only, with \<^verbatim>\<open>credentials_exception\<close>: when decoding raises any \<^verbatim>\<open>JWTError\<close>
  (token undecodable, signature invalid, expired), when the claims hold no subject, and when
  the subject names no stored account. A stale token of a deleted account and a forged token
  give the same exception.
\<close>

theorem get_current_user_one_failure:
  "(\<forall>e. fst (get_current_user jwt token db) = Inl e \<longrightarrow> e = credentials_exception) \<and>
   (\<forall>err. jwt_decode jwt token SECRET_KEY [ALGORITHM] = Inl err \<longrightarrow>
      fst (get_current_user jwt token db) = Inl credentials_exception) \<and>
   (\<forall>payload. jwt_decode jwt token SECRET_KEY [ALGORITHM] = Inr payload \<and>
      map_of payload ''sub'' = None \<longrightarrow>
      fst (get_current_user jwt token db) = Inl credentials_exception) \<and>
   (\<forall>payload username. jwt_decode jwt token SECRET_KEY [ALGORITHM] = Inr payload \<and>
      map_of payload ''sub'' = Some username \<and>
      username \<notin> (\<lambda>u. Str (u_name u)) ` set (users db) \<longrightarrow>
      fst (get_current_user jwt token db) = Inl credentials_exception)"
proof (intro conjI allI impI)
  fix e assume "fst (get_current_user jwt token db) = Inl e"
  then show "e = credentials_exception"
    by (auto simp add: get_current_user_def query_user_by_name_def
        split: sum.splits option.splits prod.splits)
next
  fix err assume "jwt_decode jwt token SECRET_KEY [ALGORITHM] = Inl err"
  then show "fst (get_current_user jwt token db) = Inl credentials_exception"
    by (simp add: get_current_user_def)
next
  fix payload
  assume "jwt_decode jwt token SECRET_KEY [ALGORITHM] = Inr payload \<and> map_of payload ''sub'' = None"
  then show "fst (get_current_user jwt token db) = Inl credentials_exception"
    by (simp add: get_current_user_def)
next
  fix payload username
  assume h: "jwt_decode jwt token SECRET_KEY [ALGORITHM] = Inr payload \<and>
      map_of payload ''sub'' = Some username \<and>
      username \<notin> (\<lambda>u. Str (u_name u)) ` set (users db)"
  then have "find (\<lambda>u. Str (u_name u) = username) (users db) = None"
    by (simp add: find_absent)
  with h show "fst (get_current_user jwt token db) = Inl credentials_exception"
    by (simp add: get_current_user_def query_user_by_name_def)
qed

theorem get_current_user_one_failure_witness:
  "fst (get_current_user (python_jose (book_prims alice_book) 5) ''not-a-token'' shop) =
     Inl credentials_exception \<and>
   fst (get_current_user (python_jose (book_prims alice_book) 5) forged_token shop) =
     Inl credentials_exception \<and>
   fst (get_current_user (python_jose (book_prims alice_book) 1801000000) alice_token shop) =
     Inl credentials_exception \<and>
   fst (get_current_user (python_jose (book_prims alice_book) 5) anonymous_token shop) =
     Inl credentials_exception \<and>
   fst (get_current_user (python_jose (book_prims alice_book) 5) carol_token shop) =
     Inl credentials_exception"
proof -
  note t = get_current_user_one_failure
  have a: "jwt_decode (python_jose (book_prims alice_book) 5) forged_token SECRET_KEY [ALGORITHM] =
      Inl InvalidSignature"
    by (simp add: codec_defs forged_token_def)
  have b: "jwt_decode (python_jose (book_prims alice_book) 1801000000) alice_token SECRET_KEY
      [ALGORITHM] = Inl Expired"
    by (simp add: codec_defs alice_token_def)
  have c: "Str ''carol'' \<notin> (\<lambda>u. Str (u_name u)) ` set (users shop)"
    by (simp add: shop_def alice_def bob_def)
  have m: "map_of [(''exp'', Num 1800)] ''sub'' = None"
    "map_of [(''sub'', Str ''carol''), (''exp'', Num 1800)] ''sub'' = Some (Str ''carol'')"
    by simp_all
  from t [of "python_jose (book_prims alice_book) 5" "''not-a-token''" shop] decode_garbage
  have 1: "fst (get_current_user (python_jose (book_prims alice_book) 5) ''not-a-token'' shop) =
     Inl credentials_exception" by blast
  from t [of "python_jose (book_prims alice_book) 5" forged_token shop] a
  have 2: "fst (get_current_user (python_jose (book_prims alice_book) 5) forged_token shop) =
     Inl credentials_exception" by blast
  from t [of "python_jose (book_prims alice_book) 1801000000" alice_token shop] b
  have 3: "fst (get_current_user (python_jose (book_prims alice_book) 1801000000) alice_token shop) =
     Inl credentials_exception" by blast
  from t [of "python_jose (book_prims alice_book) 5" anonymous_token shop] decode_anonymous m(1)
  have 4: "fst (get_current_user (python_jose (book_prims alice_book) 5) anonymous_token shop) =
     Inl credentials_exception" by blast
  from t [of "python_jose (book_prims alice_book) 5" carol_token shop] decode_carol m(2) c
  have 5: "fst (get_current_user (python_jose (book_prims alice_book) 5) carol_token shop) =
     Inl credentials_exception" by blast
  from 1 2 3 4 5 show ?thesis by blast
qed

text \<open>
  Claim C8, as stated, fails: resolving a token that does not decode issues no lookup at all,
  because the exception is raised before the query.
\<close>

theorem get_current_user_lookup_counterexample:
  "fst (get_current_user (python_jose (book_prims alice_book) 5) ''not-a-token'' shop) =
     Inl credentials_exception \<and>
   lookups (snd (get_current_user (python_jose (book_prims alice_book) 5) ''not-a-token'' shop)) =
     lookups shop"
  by (simp add: get_current_user_def decode_garbage)

text \<open>
  Claim C8, amended. \<^verbatim>\<open>get_current_user\<close> changes no stored row and no id sequence, and it
  issues at most one lookup: exactly one, for the account whose name equals the token's
  subject, when the token decodes and carries a subject, and none otherwise.
\<close>

theorem get_current_user_effects:
  "stored (snd (get_current_user jwt token db)) = stored db \<and>
   products_seq (snd (get_current_user jwt token db)) = products_seq db \<and>
   sales_seq (snd (get_current_user jwt token db)) = sales_seq db \<and>
   lookups (snd (get_current_user jwt token db)) =
     lookups db @
       (case jwt_decode jwt token SECRET_KEY [ALGORITHM] of
          Inl e \<Rightarrow> []
        | Inr payload \<Rightarrow>
            (case map_of payload ''sub'' of None \<Rightarrow> [] | Some username \<Rightarrow> [UserByName username]))"
  by (simp add: get_current_user_def query_user_by_name_def stored_def
      split: sum.splits option.splits prod.splits)

theorem get_current_user_effects_witness:
  "stored (snd (get_current_user (python_jose (book_prims alice_book) 5) alice_token shop)) =
     stored shop \<and>
   lookups (snd (get_current_user (python_jose (book_prims alice_book) 5) alice_token shop)) =
     [UserByName (Str ''alice'')]"
proof -
  have d: "jwt_decode (python_jose (book_prims alice_book) 5) alice_token SECRET_KEY [ALGORITHM] =
      Inr [(''sub'', Str ''alice''), (''exp'', Num 1800)]"
    by (simp add: codec_defs alice_token_def)
  have l: "lookups shop = []" by (simp add: shop_def)
  from get_current_user_effects [of "python_jose (book_prims alice_book) 5" alice_token shop]
  show ?thesis
    by (simp add: d l)
qed

subsection \<open>Token issuance\<close>

text \<open>
  Claim C6, at \<^verbatim>\<open>expires_delta = timedelta(0)\<close>: the claims set built at time 0 expires at
  time 0 plus thirty minutes, not at time 0 plus zero. The test \<^verbatim>\<open>if expires_delta:\<close> takes a zero
  duration for an absent one.
\<close>

theorem to_encode_zero_delta:
  "to_encode [(''sub'', Str ''alice'')] (Some 0) 0 =
     Inr [(''sub'', Str ''alice''), (''exp'', Datetime 1800000000)]"
  by (simp add: to_encode_def datetime_add_def datetime_min_def datetime_max_def
      timedelta_minutes_def ACCESS_TOKEN_EXPIRE_MINUTES_def)

text \<open>
  For every duration other than zero, negative ones included, whose sum with the clock is a
  \<^verbatim>\<open>datetime\<close>, the claims set is the data with \<^verbatim>\<open>exp\<close> set to the clock plus the duration.
\<close>

theorem to_encode_expiry:
  assumes "ttl \<noteq> 0" and "datetime_min \<le> now + ttl" and "now + ttl \<le> datetime_max"
  shows "to_encode data (Some ttl) now = Inr (AList.update ''exp'' (Datetime (now + ttl)) data)"
  using assms by (simp add: to_encode_def datetime_add_def)

theorem to_encode_expiry_witness:
  "to_encode [(''sub'', Str ''alice'')] (Some (- 1000000)) 5000000 =
     Inr [(''sub'', Str ''alice''), (''exp'', Datetime 4000000)]"
proof -
  have a: "(- 1000000 :: int) \<noteq> 0" by simp
  have b: "datetime_min \<le> 5000000 + (- 1000000)" by (simp add: datetime_min_def)
  have c: "5000000 + (- 1000000) \<le> datetime_max" by (simp add: datetime_max_def)
  from to_encode_expiry [OF a b c, of "[(''sub'', Str ''alice'')]"] show ?thesis
    by simp
qed

subsection \<open>Product creation\<close>

text \<open>
  Claim C9. The product that the create-product endpoint stores is fixed by the request body
  and the stored rows; the authenticated user is resolved and then not used. Two calls with
  the same body under the tokens of two different users return the same product and leave the
  same rows, and when the body's \<^verbatim>\<open>user_id\<close> is the id of any stored user (the foreign key
  of \<^verbatim>\<open>Product.user_id\<close>), the row appended carries exactly the body's name, price and
  \<^verbatim>\<open>user_id\<close>, whoever the caller is.
\<close>

theorem create_product_ignores_caller:
  assumes "get_current_user jwt token1 db = (Inr user1, db1)"
    and "get_current_user jwt token2 db = (Inr user2, db2)"
  shows "fst (main_create_product jwt product token1 db) =
           fst (main_create_product jwt product token2 db) \<and>
         stored (snd (main_create_product jwt product token1 db)) =
           stored (snd (main_create_product jwt product token2 db)) \<and>
         (pc_user_id product \<in> u_id ` set (users db) \<longrightarrow>
            fst (main_create_product jwt product token1 db) =
              Inr \<lparr>p_id = products_seq db + 1, p_name = pc_name product,
                   p_price = pc_price product, p_user_id = pc_user_id product\<rparr> \<and>
            stored (snd (main_create_product jwt product token1 db)) =
              (users db,
               products db @ [\<lparr>p_id = products_seq db + 1, p_name = pc_name product,
                                p_price = pc_price product, p_user_id = pc_user_id product\<rparr>],
               sales db))"
proof -
  note f1 = get_current_user_frame [OF assms(1)]
  note f2 = get_current_user_frame [OF assms(2)]
  have m1: "main_create_product jwt product token1 db = crud_create_product db1 product"
    by (simp add: main_create_product_def assms(1))
  have m2: "main_create_product jwt product token2 db = crud_create_product db2 product"
    by (simp add: main_create_product_def assms(2))
  show ?thesis
    unfolding m1 m2
    by (simp add: crud_create_product_def stored_def f1 f2 Let_def)
qed

theorem create_product_ignores_caller_witness:
  "fst (main_create_product (python_jose (book_prims alice_book) 5)
          \<lparr>pc_name = ''mug'', pc_price = 5, pc_user_id = 2\<rparr> alice_token shop) =
     Inr \<lparr>p_id = 2, p_name = ''mug'', p_price = 5, p_user_id = 2\<rparr> \<and>
   fst (main_create_product (python_jose (book_prims alice_book) 5)
          \<lparr>pc_name = ''mug'', pc_price = 5, pc_user_id = 2\<rparr> bob_token shop) =
     Inr \<lparr>p_id = 2, p_name = ''mug'', p_price = 5, p_user_id = 2\<rparr> \<and>
   u_id alice \<noteq> 2"
proof -
  have own: "pc_user_id \<lparr>pc_name = ''mug'', pc_price = 5, pc_user_id = 2\<rparr> \<in> u_id ` set (users shop)"
    by (simp add: shop_def alice_def bob_def)
  note t = create_product_ignores_caller [OF resolve_alice resolve_bob,
      of "\<lparr>pc_name = ''mug'', pc_price = 5, pc_user_id = 2\<rparr>"]
  have e: "fst (main_create_product (python_jose (book_prims alice_book) 5)
          \<lparr>pc_name = ''mug'', pc_price = 5, pc_user_id = 2\<rparr> bob_token shop) =
        fst (main_create_product (python_jose (book_prims alice_book) 5)
          \<lparr>pc_name = ''mug'', pc_price = 5, pc_user_id = 2\<rparr> alice_token shop)"
    using conjunct1 [OF t] by (rule sym)
  have c: "fst (main_create_product (python_jose (book_prims alice_book) 5)
          \<lparr>pc_name = ''mug'', pc_price = 5, pc_user_id = 2\<rparr> alice_token shop) =
     Inr \<lparr>p_id = products_seq shop + 1, p_name = ''mug'', p_price = 5, p_user_id = 2\<rparr>"
    using conjunct1 [OF mp [OF conjunct2 [OF conjunct2 [OF t]] own]] by simp
  show ?thesis
    unfolding e c by (simp add: shop_def alice_def)
qed

subsection \<open>Sale creation\<close>

lemma create_sale_no_product:
  "sc_product_id sale \<notin> p_id ` set (products db) \<Longrightarrow>
   fst (crud_create_sale db sale) = Inl (ValueError ''Product not found'') \<and>
   stored (snd (crud_create_sale db sale)) = stored db"
  by (simp add: crud_create_sale_def query_product_by_id_def query_user_by_id_def
      find_absent stored_def)

lemma create_sale_no_user:
  "sc_product_id sale \<in> p_id ` set (products db) \<Longrightarrow>
   sc_user_id sale \<notin> u_id ` set (users db) \<Longrightarrow>
   fst (crud_create_sale db sale) = Inl (ValueError ''User not found'') \<and>
   stored (snd (crud_create_sale db sale)) = stored db"
  using find_present [of "sc_product_id sale" p_id "products db"]
  by (auto simp add: crud_create_sale_def query_product_by_id_def query_user_by_id_def
      find_absent stored_def)

lemma create_sale_ok:
  assumes "distinct (map p_id (products db))" "distinct (map u_id (users db))"
    and "p \<in> set (products db)" "p_id p = sc_product_id sale"
    and "u \<in> set (users db)" "u_id u = sc_user_id sale"
  shows "crud_create_sale db sale =
     (Inr \<lparr>sales_id = sales_seq db + 1, sales_product_id = sc_product_id sale,
           sales_product_name = p_name p, sales_user_id = sc_user_id sale,
           sales_user_name = u_name u\<rparr>,
      db\<lparr>lookups := lookups db @ [ProductById (sc_product_id sale), UserById (sc_user_id sale)],
         sales := sales db @ [\<lparr>s_id = sales_seq db + 1, s_product_id = sc_product_id sale,
                                s_user_id = sc_user_id sale\<rparr>],
         sales_seq := sales_seq db + 1\<rparr>)"
proof -
  have fp: "find (\<lambda>y. p_id y = sc_product_id sale) (products db) = Some p"
    using find_distinct_key [OF assms(1) assms(3)] assms(4) by simp
  have fu: "find (\<lambda>y. u_id y = sc_user_id sale) (users db) = Some u"
    using find_distinct_key [OF assms(2) assms(5)] assms(6) by simp
  show ?thesis
    by (simp add: crud_create_sale_def query_product_by_id_def query_user_by_id_def fp fu Let_def)
qed

text \<open>
  Claim C10. \<^verbatim>\<open>crud.create_sale\<close> raises \<^verbatim>\<open>ValueError\<close> when the referenced product id is
  no product's id (\<^verbatim>\<open>Product not found\<close>) or, the product existing, the referenced user id is
  no user's id (\<^verbatim>\<open>User not found\<close>); the rows of all tables are then as before, so no sale is
  persisted. The exception is a \<^verbatim>\<open>ValueError\<close>, not the \<^verbatim>\<open>HTTPException\<close> that the
  authentication failures raise. When both ids are those of a stored product and a stored user
  (ids being primary keys), the returned dictionary carries that product's and that user's
  names and one sale row is appended. The endpoint of \<^verbatim>\<open>main.py\<close>, once the caller is
  authenticated, is \<^verbatim>\<open>crud.create_sale\<close> on the same stored rows.
\<close>

theorem create_sale_references:
  "(sc_product_id sale \<notin> p_id ` set (products db) \<longrightarrow>
      fst (crud_create_sale db sale) = Inl (ValueError ''Product not found'') \<and>
      stored (snd (crud_create_sale db sale)) = stored db) \<and>
   (sc_product_id sale \<in> p_id ` set (products db) \<and> sc_user_id sale \<notin> u_id ` set (users db) \<longrightarrow>
      fst (crud_create_sale db sale) = Inl (ValueError ''User not found'') \<and>
      stored (snd (crud_create_sale db sale)) = stored db) \<and>
   (\<forall>p u. distinct (map p_id (products db)) \<and> distinct (map u_id (users db)) \<and>
      p \<in> set (products db) \<and> p_id p = sc_product_id sale \<and>
      u \<in> set (users db) \<and> u_id u = sc_user_id sale \<longrightarrow>
      fst (crud_create_sale db sale) =
        Inr \<lparr>sales_id = sales_seq db + 1, sales_product_id = sc_product_id sale,
             sales_product_name = p_name p, sales_user_id = sc_user_id sale,
             sales_user_name = u_name u\<rparr> \<and>
      stored (snd (crud_create_sale db sale)) =
        (users db, products db,
         sales db @ [\<lparr>s_id = sales_seq db + 1, s_product_id = sc_product_id sale,
                       s_user_id = sc_user_id sale\<rparr>])) \<and>
   (\<forall>current_user db1. get_current_user jwt token db = (Inr current_user, db1) \<longrightarrow>
      stored db1 = stored db \<and>
      main_create_sale jwt sale token db = crud_create_sale db1 sale)"
proof (intro conjI impI allI)
  assume "sc_product_id sale \<notin> p_id ` set (products db)"
  from create_sale_no_product [OF this]
  show "fst (crud_create_sale db sale) = Inl (ValueError ''Product not found'')"
    and "stored (snd (crud_create_sale db sale)) = stored db"
    by simp_all
next
  assume "sc_product_id sale \<in> p_id ` set (products db) \<and> sc_user_id sale \<notin> u_id ` set (users db)"
  then have "fst (crud_create_sale db sale) = Inl (ValueError ''User not found'') \<and>
      stored (snd (crud_create_sale db sale)) = stored db"
    using create_sale_no_user by blast
  then show "fst (crud_create_sale db sale) = Inl (ValueError ''User not found'')"
    and "stored (snd (crud_create_sale db sale)) = stored db"
    by simp_all
next
  fix p u
  assume h: "distinct (map p_id (products db)) \<and> distinct (map u_id (users db)) \<and>
      p \<in> set (products db) \<and> p_id p = sc_product_id sale \<and>
      u \<in> set (users db) \<and> u_id u = sc_user_id sale"
  then have eq: "crud_create_sale db sale =
     (Inr \<lparr>sales_id = sales_seq db + 1, sales_product_id = sc_product_id sale,
           sales_product_name = p_name p, sales_user_id = sc_user_id sale,
           sales_user_name = u_name u\<rparr>,
      db\<lparr>lookups := lookups db @ [ProductById (sc_product_id sale), UserById (sc_user_id sale)],
         sales := sales db @ [\<lparr>s_id = sales_seq db + 1, s_product_id = sc_product_id sale,
                                s_user_id = sc_user_id sale\<rparr>],
         sales_seq := sales_seq db + 1\<rparr>)"
    using create_sale_ok [of db p sale u] by blast
  show "fst (crud_create_sale db sale) =
        Inr \<lparr>sales_id = sales_seq db + 1, sales_product_id = sc_product_id sale,
             sales_product_name = p_name p, sales_user_id = sc_user_id sale,
             sales_user_name = u_name u\<rparr>"
    by (simp add: eq)
  show "stored (snd (crud_create_sale db sale)) =
        (users db, products db,
         sales db @ [\<lparr>s_id = sales_seq db + 1, s_product_id = sc_product_id sale,
                       s_user_id = sc_user_id sale\<rparr>])"
    by (simp add: eq stored_def)
next
  fix current_user db1
  assume g: "get_current_user jwt token db = (Inr current_user, db1)"
  show "stored db1 = stored db"
    using get_current_user_frame [OF g] by (simp add: stored_def)
  show "main_create_sale jwt sale token db = crud_create_sale db1 sale"
    by (simp add: main_create_sale_def g)
qed

theorem create_sale_references_witness:
  "fst (crud_create_sale shop \<lparr>sc_product_id = 9, sc_user_id = 1\<rparr>) =
     Inl (ValueError ''Product not found'') \<and>
   sales (snd (crud_create_sale shop \<lparr>sc_product_id = 9, sc_user_id = 1\<rparr>)) = [] \<and>
   fst (crud_create_sale shop \<lparr>sc_product_id = 1, sc_user_id = 7\<rparr>) =
     Inl (ValueError ''User not found'') \<and>
   sales (snd (crud_create_sale shop \<lparr>sc_product_id = 1, sc_user_id = 7\<rparr>)) = [] \<and>
   fst (crud_create_sale shop \<lparr>sc_product_id = 1, sc_user_id = 2\<rparr>) =
     Inr \<lparr>sales_id = 1, sales_product_id = 1, sales_product_name = ''tea'',
          sales_user_id = 2, sales_user_name = ''bob''\<rparr> \<and>
   sales (snd (crud_create_sale shop \<lparr>sc_product_id = 1, sc_user_id = 2\<rparr>)) =
     [\<lparr>s_id = 1, s_product_id = 1, s_user_id = 2\<rparr>] \<and>
   main_create_sale (python_jose (book_prims alice_book) 5)
       \<lparr>sc_product_id = 9, sc_user_id = 1\<rparr> alice_token shop =
     crud_create_sale (shop\<lparr>lookups := [UserByName (Str ''alice'')]\<rparr>)
       \<lparr>sc_product_id = 9, sc_user_id = 1\<rparr>"
proof -
  have a: "sc_product_id \<lparr>sc_product_id = 9, sc_user_id = 1\<rparr> \<notin> p_id ` set (products shop)"
    by (simp add: shop_def)
  have b: "sc_product_id \<lparr>sc_product_id = 1, sc_user_id = 7\<rparr> \<in> p_id ` set (products shop) \<and>
      sc_user_id \<lparr>sc_product_id = 1, sc_user_id = 7\<rparr> \<notin> u_id ` set (users shop)"
    by (simp add: shop_def alice_def bob_def)
  have c: "distinct (map p_id (products shop)) \<and> distinct (map u_id (users shop)) \<and>
      \<lparr>p_id = 1, p_name = ''tea'', p_price = 3, p_user_id = 1\<rparr> \<in> set (products shop) \<and>
      p_id \<lparr>p_id = 1, p_name = ''tea'', p_price = 3, p_user_id = 1\<rparr> =
        sc_product_id \<lparr>sc_product_id = 1, sc_user_id = 2\<rparr> \<and>
      bob \<in> set (users shop) \<and> u_id bob = sc_user_id \<lparr>sc_product_id = 1, sc_user_id = 2\<rparr>"
    by (simp add: shop_def alice_def bob_def)
  note t = create_sale_references
  from t [of "\<lparr>sc_product_id = 9, sc_user_id = 1\<rparr>" shop] a
  have 1: "fst (crud_create_sale shop \<lparr>sc_product_id = 9, sc_user_id = 1\<rparr>) =
     Inl (ValueError ''Product not found'') \<and>
     stored (snd (crud_create_sale shop \<lparr>sc_product_id = 9, sc_user_id = 1\<rparr>)) = stored shop"
    by blast
  from t [of "\<lparr>sc_product_id = 1, sc_user_id = 7\<rparr>" shop] b
  have 2: "fst (crud_create_sale shop \<lparr>sc_product_id = 1, sc_user_id = 7\<rparr>) =
     Inl (ValueError ''User not found'') \<and>
     stored (snd (crud_create_sale shop \<lparr>sc_product_id = 1, sc_user_id = 7\<rparr>)) = stored shop"
    by blast
  from t [of "\<lparr>sc_product_id = 1, sc_user_id = 2\<rparr>" shop] c
  have 3: "fst (crud_create_sale shop \<lparr>sc_product_id = 1, sc_user_id = 2\<rparr>) =
        Inr \<lparr>sales_id = sales_seq shop + 1,
             sales_product_id = sc_product_id \<lparr>sc_product_id = 1, sc_user_id = 2\<rparr>,
             sales_product_name = p_name \<lparr>p_id = 1, p_name = ''tea'', p_price = 3, p_user_id = 1\<rparr>,
             sales_user_id = sc_user_id \<lparr>sc_product_id = 1, sc_user_id = 2\<rparr>,
             sales_user_name = u_name bob\<rparr> \<and>
      stored (snd (crud_create_sale shop \<lparr>sc_product_id = 1, sc_user_id = 2\<rparr>)) =
        (users shop, products shop,
         sales shop @ [\<lparr>s_id = sales_seq shop + 1,
                         s_product_id = sc_product_id \<lparr>sc_product_id = 1, sc_user_id = 2\<rparr>,
                         s_user_id = sc_user_id \<lparr>sc_product_id = 1, sc_user_id = 2\<rparr>\<rparr>])"
    by blast
  from t [of "\<lparr>sc_product_id = 9, sc_user_id = 1\<rparr>" shop
      "python_jose (book_prims alice_book) 5" alice_token] resolve_alice
  have 4: "main_create_sale (python_jose (book_prims alice_book) 5)
       \<lparr>sc_product_id = 9, sc_user_id = 1\<rparr> alice_token shop =
     crud_create_sale (shop\<lparr>lookups := [UserByName (Str ''alice'')]\<rparr>)
       \<lparr>sc_product_id = 9, sc_user_id = 1\<rparr>"
    by blast
  from 1 2 3 have "fst (crud_create_sale shop \<lparr>sc_product_id = 9, sc_user_id = 1\<rparr>) =
     Inl (ValueError ''Product not found'') \<and>
   sales (snd (crud_create_sale shop \<lparr>sc_product_id = 9, sc_user_id = 1\<rparr>)) = [] \<and>
   fst (crud_create_sale shop \<lparr>sc_product_id = 1, sc_user_id = 7\<rparr>) =
     Inl (ValueError ''User not found'') \<and>
   sales (snd (crud_create_sale shop \<lparr>sc_product_id = 1, sc_user_id = 7\<rparr>)) = [] \<and>
   fst (crud_create_sale shop \<lparr>sc_product_id = 1, sc_user_id = 2\<rparr>) =
     Inr \<lparr>sales_id = 1, sales_product_id = 1, sales_product_name = ''tea'',
          sales_user_id = 2, sales_user_name = ''bob''\<rparr> \<and>
   sales (snd (crud_create_sale shop \<lparr>sc_product_id = 1, sc_user_id = 2\<rparr>)) =
     [\<lparr>s_id = 1, s_product_id = 1, s_user_id = 2\<rparr>]"
    by (simp add: stored_def shop_def bob_def)
  with 4 show ?thesis
    by blast
qed

end
